theory Spec2Isabelle
  imports Main "HOL-Library.Word"
begin

section \<open>JavaScript strings\<close>

text \<open>
  A JavaScript string is a sequence of UTF-16 code units. \<open>lit\<close> embeds an ASCII
  literal of the source. \<open>trim\<close> is \<^verbatim>\<open>String.prototype.trim\<close>: it strips the
  ECMAScript WhiteSpace and LineTerminator code points from both ends (all of them lie in
  the Basic Multilingual Plane, so one code unit each). \<open>String_includes\<close> is
  \<^verbatim>\<open>String.prototype.includes\<close> with the default position 0.
\<close>

type_synonym jschar = "16 word"
type_synonym jsstring = "jschar list"

definition lit :: "string \<Rightarrow> jsstring" where
  "lit s = map of_char s"

definition isWhiteSpace :: "jschar \<Rightarrow> bool" where
  "isWhiteSpace c \<longleftrightarrow>
     c = 0x0009 \<or> c = 0x000B \<or> c = 0x000C \<or> c = 0x0020 \<or> c = 0x00A0 \<or> c = 0x1680 \<or>
     (0x2000 \<le> c \<and> c \<le> 0x200A) \<or> c = 0x202F \<or> c = 0x205F \<or> c = 0x3000 \<or> c = 0xFEFF"

definition isLineTerminator :: "jschar \<Rightarrow> bool" where
  "isLineTerminator c \<longleftrightarrow> c = 0x000A \<or> c = 0x000D \<or> c = 0x2028 \<or> c = 0x2029"

definition isTrimmed :: "jschar \<Rightarrow> bool" where
  "isTrimmed c \<longleftrightarrow> isWhiteSpace c \<or> isLineTerminator c"

definition trim :: "jsstring \<Rightarrow> jsstring" where
  "trim s = rev (dropWhile isTrimmed (rev (dropWhile isTrimmed s)))"

fun String_includes :: "jsstring \<Rightarrow> jsstring \<Rightarrow> bool" where
  "String_includes [] sub = (sub = [])"
| "String_includes (c # cs) sub = (take (length sub) (c # cs) = sub \<or> String_includes cs sub)"


section \<open>Errors and promises\<close>

text \<open>
  \<open>Error m\<close> is \<^verbatim>\<open>new Error(m)\<close>, the only kind of exception that
  \<^verbatim>\<open>editor-page.ts\<close> constructs itself. \<open>TypeError\<close> is what the runtime throws on a
  property access on \<^verbatim>\<open>null\<close> and what \<^verbatim>\<open>new URL(s)\<close> throws on an unparsable
  \<open>s\<close>. \<open>TimeoutError m\<close> is the browser-automation library's rejection of a bounded
  wait. Collaborators may reject with any of the three.
\<close>

datatype error = Error jsstring | TypeError | TimeoutError jsstring

text \<open>
  A promise is described by how it settles: fulfilled or rejected at a logical instant
  (counted from the moment the operation is started), or never settled.
\<close>

datatype 'a promise = Fulfilled nat 'a | Rejected nat error | Pending

fun settledAt :: "'a promise \<Rightarrow> nat option" where
  "settledAt (Fulfilled t x) = Some t"
| "settledAt (Rejected t e) = Some t"
| "settledAt Pending = None"

fun delay :: "nat \<Rightarrow> 'a promise \<Rightarrow> 'a promise" where
  "delay d (Fulfilled t x) = Fulfilled (d + t) x"
| "delay d (Rejected t e) = Rejected (d + t) e"
| "delay d Pending = Pending"


text \<open>
  \<^verbatim>\<open>Promise.race\<close> settles as the first of its inputs to settle, whether that one
  fulfils or rejects; of two inputs settling at the same instant the earlier in the array
  wins (its reaction was registered first); with no settling input it stays pending.
\<close>

definition sooner :: "'a promise \<Rightarrow> 'a promise \<Rightarrow> 'a promise" where
  "sooner p q =
     (case settledAt p of
        None \<Rightarrow> q
      | Some a \<Rightarrow> (case settledAt q of None \<Rightarrow> p | Some b \<Rightarrow> if b < a then q else p))"

definition Promise_race :: "'a promise list \<Rightarrow> 'a promise" where
  "Promise_race ps = foldr sooner ps Pending"




text \<open>
  \<^verbatim>\<open>Promise.allSettled\<close> never rejects: it fulfils with the list of outcomes once every
  input has settled, and stays pending while one has not.
\<close>

datatype 'a settled = fulfilled 'a | rejected error

fun settlements :: "'a promise list \<Rightarrow> (nat \<times> 'a settled) list option" where
  "settlements [] = Some []"
| "settlements (Fulfilled t x # ps) =
     (case settlements ps of None \<Rightarrow> None | Some vs \<Rightarrow> Some ((t, fulfilled x) # vs))"
| "settlements (Rejected t e # ps) =
     (case settlements ps of None \<Rightarrow> None | Some vs \<Rightarrow> Some ((t, rejected e) # vs))"
| "settlements (Pending # ps) = None"

definition Promise_allSettled :: "'a promise list \<Rightarrow> 'a settled list promise" where
  "Promise_allSettled ps =
     (case settlements ps of
        None \<Rightarrow> Pending
      | Some vs \<Rightarrow> Fulfilled (foldr max (map fst vs) 0) (map snd vs))"


section \<open>Collaborators of the page object\<close>

text \<open>
  Values handed around by the browser-automation library are references; the model
  names them by number. A \<open>URL\<close> is a parsed URL object with its serialisation.
  \<open>Schedule\<close> is declared outside \<^verbatim>\<open>editor-page.ts\<close>, which only passes it on: it
  is the type parameter \<open>'s\<close>. The string-literal unions \<open>EditorSidebarTab\<close>,
  \<open>PrivacyOptions\<close> and \<open>PreviewOptions\<close> are strings.
\<close>

datatype ElementHandle = ElementHandle nat
datatype Frame = MainFrame | ChildFrame nat
datatype Response = Response nat
datatype Page = Page nat
datatype URL = URL (href: jsstring)

text \<open>
  Every call that \<^verbatim>\<open>EditorPage\<close> makes on a collaborator is recorded, with its
  arguments, in the order in which the calls are started.
\<close>

datatype 's event =
    PageLocatorElementHandle jsstring nat
  | ElementHandleContentFrame ElementHandle
  | ConsoleInfo jsstring
  | PageOnceDialog
  | PageGoto jsstring jsstring
  | PageWaitForSelector jsstring nat
  | PageWaitForNavigation jsstring
  | ReloadAndRetry
  | FrameClick Frame jsstring
  | FrameWaitForSelector Frame jsstring
  | FrameLocatorGetAttribute Frame jsstring jsstring
  | GutenbergEnterTitle jsstring
  | GutenbergGetTitle
  | GutenbergEnterText jsstring
  | GutenbergGetText
  | GutenbergResetSelectedBlock
  | GutenbergSearchBlockInserter jsstring
  | GutenbergSelectBlockInserterResult jsstring
  | GutenbergGetSelectedBlockElementHandle jsstring
  | ToolbarOpenBlockInserter
  | ToolbarCloseBlockInserter
  | ToolbarCloseSettings
  | ToolbarClickPublish
  | ToolbarSwitchToDraft
  | ToolbarOpenMobilePreview
  | ToolbarOpenDesktopPreview jsstring
  | SettingsClickTab jsstring
  | SettingsExpandSection jsstring
  | SettingsOpenVisibilityOptions
  | SettingsSelectVisibility jsstring "jsstring option"
  | SettingsCloseVisibilityOptions
  | SettingsCheckCategory jsstring
  | SettingsEnterTag jsstring
  | SettingsEnterUrlSlug jsstring
  | SettingsOpenSchedule
  | SettingsSetScheduleDetails 's
  | SettingsCloseSchedule
  | PublishPanelClosePanel
  | PublishPanelIsOpen
  | PublishPanelPublish
  | PublishPanelGetPublishedURL
  | NavSidebarOpenSidebar
  | NavSidebarCloseSidebar
  | NavSidebarExitEditor
  | NavbarClickMySites

text \<open>
  An asynchronous operation, started after the calls \<open>tr\<close>, yields the promise it
  returns and the calls it starts. Instants in the promise count from the start of the
  operation. The calls of an operation that runs concurrently with others are recorded
  where the operation is started.
\<close>

type_synonym ('s, 'a) async = "'s event list \<Rightarrow> 'a promise \<times> 's event list"

text \<open>
  The collaborators are not part of \<^verbatim>\<open>editor-page.ts\<close>; their behaviour is a
  parameter. Each asynchronous method is a function from the calls made so far to the
  promise the method returns (all of them are \<^verbatim>\<open>async\<close>: they report failure by
  rejecting, never by throwing while the call expression is evaluated). \<open>page_url\<close> is
  the synchronous \<^verbatim>\<open>page.url()\<close>; \<open>VIEWPORT_NAME\<close> is
  \<^verbatim>\<open>envVariables.VIEWPORT_NAME\<close>; \<open>new_URL\<close> is the \<^verbatim>\<open>URL\<close> constructor, \<open>None\<close>
  where it throws; \<open>reloadAndRetry\<close> is the helper of \<^verbatim>\<open>element-helper\<close>, given the
  closure it retries.
\<close>

record 's env =
  VIEWPORT_NAME :: jsstring
  new_URL :: "jsstring \<Rightarrow> URL option"
  reloadAndRetry :: "('s, unit) async \<Rightarrow> ('s, unit) async"
  page_url :: "'s event list \<Rightarrow> jsstring"
  page_locator_elementHandle :: "jsstring \<Rightarrow> nat \<Rightarrow> 's event list \<Rightarrow> ElementHandle option promise"
  elementHandle_contentFrame :: "ElementHandle \<Rightarrow> 's event list \<Rightarrow> Frame option promise"
  page_goto :: "jsstring \<Rightarrow> jsstring \<Rightarrow> 's event list \<Rightarrow> Response option promise"
  page_waitForSelector :: "jsstring \<Rightarrow> nat \<Rightarrow> 's event list \<Rightarrow> ElementHandle promise"
  page_waitForNavigation :: "jsstring \<Rightarrow> 's event list \<Rightarrow> Response option promise"
  frame_click :: "Frame \<Rightarrow> jsstring \<Rightarrow> 's event list \<Rightarrow> unit promise"
  frame_waitForSelector :: "Frame \<Rightarrow> jsstring \<Rightarrow> 's event list \<Rightarrow> ElementHandle promise"
  frame_locator_getAttribute :: "Frame \<Rightarrow> jsstring \<Rightarrow> jsstring \<Rightarrow> 's event list \<Rightarrow> jsstring option promise"
  gutenberg_enterTitle :: "jsstring \<Rightarrow> 's event list \<Rightarrow> unit promise"
  gutenberg_getTitle :: "'s event list \<Rightarrow> jsstring promise"
  gutenberg_enterText :: "jsstring \<Rightarrow> 's event list \<Rightarrow> unit promise"
  gutenberg_getText :: "'s event list \<Rightarrow> jsstring promise"
  gutenberg_resetSelectedBlock :: "'s event list \<Rightarrow> unit promise"
  gutenberg_searchBlockInserter :: "jsstring \<Rightarrow> 's event list \<Rightarrow> unit promise"
  gutenberg_selectBlockInserterResult :: "jsstring \<Rightarrow> 's event list \<Rightarrow> unit promise"
  gutenberg_getSelectedBlockElementHandle :: "jsstring \<Rightarrow> 's event list \<Rightarrow> ElementHandle promise"
  toolbar_openBlockInserter :: "'s event list \<Rightarrow> unit promise"
  toolbar_closeBlockInserter :: "'s event list \<Rightarrow> unit promise"
  toolbar_closeSettings :: "'s event list \<Rightarrow> unit promise"
  toolbar_clickPublish :: "'s event list \<Rightarrow> unit promise"
  toolbar_switchToDraft :: "'s event list \<Rightarrow> unit promise"
  toolbar_openMobilePreview :: "'s event list \<Rightarrow> Page promise"
  toolbar_openDesktopPreview :: "jsstring \<Rightarrow> 's event list \<Rightarrow> unit promise"
  settings_clickTab :: "jsstring \<Rightarrow> 's event list \<Rightarrow> unit promise"
  settings_expandSection :: "jsstring \<Rightarrow> 's event list \<Rightarrow> unit promise"
  settings_openVisibilityOptions :: "'s event list \<Rightarrow> unit promise"
  settings_selectVisibility :: "jsstring \<Rightarrow> jsstring option \<Rightarrow> 's event list \<Rightarrow> unit promise"
  settings_closeVisibilityOptions :: "'s event list \<Rightarrow> unit promise"
  settings_checkCategory :: "jsstring \<Rightarrow> 's event list \<Rightarrow> unit promise"
  settings_enterTag :: "jsstring \<Rightarrow> 's event list \<Rightarrow> unit promise"
  settings_enterUrlSlug :: "jsstring \<Rightarrow> 's event list \<Rightarrow> unit promise"
  settings_openSchedule :: "'s event list \<Rightarrow> unit promise"
  settings_setScheduleDetails :: "'s \<Rightarrow> 's event list \<Rightarrow> unit promise"
  settings_closeSchedule :: "'s event list \<Rightarrow> unit promise"
  publishPanel_closePanel :: "'s event list \<Rightarrow> unit promise"
  publishPanel_panelIsOpen :: "'s event list \<Rightarrow> bool promise"
  publishPanel_publish :: "'s event list \<Rightarrow> unit promise"
  publishPanel_getPublishedURL :: "'s event list \<Rightarrow> URL promise"
  navSidebar_openSidebar :: "'s event list \<Rightarrow> unit promise"
  navSidebar_closeSidebar :: "'s event list \<Rightarrow> unit promise"
  navSidebar_exitEditor :: "'s event list \<Rightarrow> unit promise"
  navbar_clickMySites :: "'s event list \<Rightarrow> unit promise"


section \<open>Control flow of asynchronous methods\<close>

text \<open>
  \<open>call\<close> starts a collaborator method and records it. \<open>emit\<close> is a synchronous call
  without a result. \<open>read\<close> is a synchronous getter. \<open>await\<close> suspends until the
  operation settles, continues with its value, and lets a rejection (or a promise that
  never settles) end the method. \<open>start\<close> begins an operation without awaiting it, and
  \<open>start_all\<close> evaluates an array of call expressions from left to right; the promises
  they give must be combined before the next \<open>await\<close>, as the source does.
  \<open>try_catch\<close> is a \<^verbatim>\<open>try\<close> block with a \<^verbatim>\<open>catch\<close> clause.
\<close>

definition return :: "'a \<Rightarrow> ('s, 'a) async" where
  "return x tr = (Fulfilled 0 x, tr)"

definition throw :: "error \<Rightarrow> ('s, 'a) async" where
  "throw e tr = (Rejected 0 e, tr)"

definition settle :: "'a promise \<Rightarrow> ('s, 'a) async" where
  "settle p tr = (p, tr)"

definition call :: "'s event \<Rightarrow> ('s event list \<Rightarrow> 'a promise) \<Rightarrow> ('s, 'a) async" where
  "call ev respond tr = (respond tr, tr @ [ev])"

definition emit :: "'s event \<Rightarrow> ('s, unit) async" where
  "emit ev tr = (Fulfilled 0 (), tr @ [ev])"

definition read :: "('s event list \<Rightarrow> 'a) \<Rightarrow> ('a \<Rightarrow> ('s, 'b) async) \<Rightarrow> ('s, 'b) async" where
  "read getter k tr = k (getter tr) tr"

definition await :: "('s, 'a) async \<Rightarrow> ('a \<Rightarrow> ('s, 'b) async) \<Rightarrow> ('s, 'b) async" where
  "await m k tr =
     (case m tr of
        (Fulfilled t x, tr') \<Rightarrow> (case k x tr' of (p, tr'') \<Rightarrow> (delay t p, tr''))
      | (Rejected t e, tr') \<Rightarrow> (Rejected t e, tr')
      | (Pending, tr') \<Rightarrow> (Pending, tr'))"

definition try_catch :: "('s, 'a) async \<Rightarrow> (error \<Rightarrow> ('s, 'a) async) \<Rightarrow> ('s, 'a) async" where
  "try_catch m handler tr =
     (case m tr of
        (Rejected t e, tr') \<Rightarrow> (case handler e tr' of (p, tr'') \<Rightarrow> (delay t p, tr''))
      | (p, tr') \<Rightarrow> (p, tr'))"

definition start :: "('s, 'a) async \<Rightarrow> ('a promise \<Rightarrow> ('s, 'b) async) \<Rightarrow> ('s, 'b) async" where
  "start m k tr = (case m tr of (p, tr') \<Rightarrow> k p tr')"

fun start_all :: "('s, 'a) async list \<Rightarrow> 's event list \<Rightarrow> 'a promise list \<times> 's event list" where
  "start_all [] tr = ([], tr)"
| "start_all (m # ms) tr =
     (case m tr of (p, tr') \<Rightarrow> (case start_all ms tr' of (ps, tr'') \<Rightarrow> (p # ps, tr'')))"

definition race :: "('s, 'a) async list \<Rightarrow> ('s, 'a) async" where
  "race ms tr = (case start_all ms tr of (ps, tr') \<Rightarrow> (Promise_race ps, tr'))"

definition allSettled :: "('s, 'a) async list \<Rightarrow> ('s, 'a settled list) async" where
  "allSettled ms tr = (case start_all ms tr of (ps, tr') \<Rightarrow> (Promise_allSettled ps, tr'))"


section \<open>The page object \<^verbatim>\<open>EditorPage\<close>\<close>

record EditorPage =
  requiresGutenframe :: bool

definition editorFrame :: jsstring where
  "editorFrame = lit ''.calypsoify.is-iframe iframe.is-loaded''"

definition toastViewPostLink :: jsstring where
  "toastViewPostLink = lit ''.components-snackbar__content a:text-matches(\"View (Post|Page)\", \"i\")''"

text \<open>
  The three exceptions that \<^verbatim>\<open>editor-page.ts\<close> raises itself, under the names of the
  specification's taxonomy. Each is a plain \<^verbatim>\<open>Error\<close> with the message of the source.
\<close>

definition SurfaceNotFound :: error where
  "SurfaceNotFound = Error (lit ''Could not locate editor iframe'')"

definition VerificationMismatch :: "jsstring \<Rightarrow> jsstring \<Rightarrow> error" where
  "VerificationMismatch enteredTitle sanitizedTitle =
     Error (lit ''Failed to verify title: got '' @ enteredTitle @ lit '', expected '' @ sanitizedTitle)"

definition ModeMismatch :: "jsstring \<Rightarrow> jsstring \<Rightarrow> error" where
  "ModeMismatch required viewport =
     Error (lit ''This method only works in '' @ required @ lit '' viewport, current viewport: ''
              @ viewport @ lit '' '')"

subsection \<open>getEditorFrame, closeAllPanels\<close>

text \<open>
  The source tests the URL inside the test of the strict mode; reading the URL has no
  effect, so the two tests are one conjunction here. \<^verbatim>\<open>page.mainFrame()\<close> is the
  frame \<open>MainFrame\<close>. \<^verbatim>\<open>elementHandle!.contentFrame()\<close> on a \<^verbatim>\<open>null\<close> handle
  throws inside the \<^verbatim>\<open>try\<close> block; a \<^verbatim>\<open>null\<close> content frame passes the cast
  \<^verbatim>\<open>as Frame\<close> and is returned as it is (\<open>None\<close>). The \<^verbatim>\<open>catch\<close> clause ignores
  what was thrown.
\<close>

definition getEditorFrame :: "'s env \<Rightarrow> EditorPage \<Rightarrow> ('s, Frame option) async" where
  "getEditorFrame env this =
     read (page_url env) (\<lambda>url.
       if \<not> requiresGutenframe this \<and> String_includes url (lit ''/wp-admin'')
       then return (Some MainFrame)
       else
         try_catch
           (await (call (PageLocatorElementHandle editorFrame (105 * 1000))
                        (page_locator_elementHandle env editorFrame (105 * 1000)))
              (\<lambda>elementHandle.
                 case elementHandle of
                   None \<Rightarrow> throw TypeError
                 | Some h \<Rightarrow> call (ElementHandleContentFrame h) (elementHandle_contentFrame env h)))
           (\<lambda>_. if requiresGutenframe this
                then throw SurfaceNotFound
                else await (emit (ConsoleInfo
                              (lit ''Could not locate editor iframe. Returning the top-level frame instead'')))
                       (\<lambda>_. return (Some MainFrame))))"

definition closeAllPanels :: "'s env \<Rightarrow> ('s, unit) async" where
  "closeAllPanels env =
     await (allSettled
              [call PublishPanelClosePanel (publishPanel_closePanel env),
               call NavSidebarCloseSidebar (navSidebar_closeSidebar env),
               call ToolbarCloseSettings (toolbar_closeSettings env)])
       (\<lambda>_. return ())"

subsection \<open>enterTitle, enterText, addBlock\<close>

definition enterTitle :: "'s env \<Rightarrow> jsstring \<Rightarrow> ('s, unit) async" where
  "enterTitle env title =
     await (call (GutenbergEnterTitle title) (gutenberg_enterTitle env title)) (\<lambda>_.
     await (call GutenbergGetTitle (gutenberg_getTitle env)) (\<lambda>enteredTitle.
       let sanitizedTitle = trim title in
       if enteredTitle \<noteq> sanitizedTitle
       then throw (VerificationMismatch enteredTitle sanitizedTitle)
       else return ()))"

text \<open>
  In \<^verbatim>\<open>enterText\<close> the body of the \<^verbatim>\<open>if\<close> is an expression statement: the
  template string is built and dropped.
\<close>

definition enterText :: "'s env \<Rightarrow> jsstring \<Rightarrow> ('s, unit) async" where
  "enterText env text' =
     await (call (GutenbergEnterText text') (gutenberg_enterText env text')) (\<lambda>_.
     await (call GutenbergGetText (gutenberg_getText env)) (\<lambda>enteredText.
       if text' \<noteq> enteredText
       then (let dropped = lit ''Failed to verify entered text: got '' @ enteredText
                             @ lit '', expected '' @ text'
             in return ())
       else return ()))"

definition addBlock :: "'s env \<Rightarrow> jsstring \<Rightarrow> jsstring \<Rightarrow> ('s, ElementHandle) async" where
  "addBlock env blockName blockEditorSelector =
     await (call GutenbergResetSelectedBlock (gutenberg_resetSelectedBlock env)) (\<lambda>_.
     await (call ToolbarOpenBlockInserter (toolbar_openBlockInserter env)) (\<lambda>_.
     await (call (GutenbergSearchBlockInserter blockName)
                 (gutenberg_searchBlockInserter env blockName)) (\<lambda>_.
     await (call (GutenbergSelectBlockInserterResult blockName)
                 (gutenberg_selectBlockInserterResult env blockName)) (\<lambda>_.
     await (call (GutenbergGetSelectedBlockElementHandle blockEditorSelector)
                 (gutenberg_getSelectedBlockElementHandle env blockEditorSelector)) (\<lambda>blockHandle.
     await (if VIEWPORT_NAME env \<noteq> lit ''mobile''
            then call ToolbarCloseBlockInserter (toolbar_closeBlockInserter env)
            else return ()) (\<lambda>_.
     return blockHandle))))))"

subsection \<open>Settings sidebar\<close>

definition setArticleVisibility ::
  "'s env \<Rightarrow> jsstring \<Rightarrow> jsstring option \<Rightarrow> ('s, unit) async" where
  "setArticleVisibility env visibility password =
     await (race [call (SettingsClickTab (lit ''Page'')) (settings_clickTab env (lit ''Page'')),
                  call (SettingsClickTab (lit ''Post'')) (settings_clickTab env (lit ''Post''))]) (\<lambda>_.
     await (call (SettingsExpandSection (lit ''Status & Visibility''))
                 (settings_expandSection env (lit ''Status & Visibility''))) (\<lambda>_.
     await (call SettingsOpenVisibilityOptions (settings_openVisibilityOptions env)) (\<lambda>_.
     await (call (SettingsSelectVisibility visibility password)
                 (settings_selectVisibility env visibility password)) (\<lambda>_.
     call SettingsCloseVisibilityOptions (settings_closeVisibilityOptions env)))))"

definition selectCategory :: "'s env \<Rightarrow> jsstring \<Rightarrow> ('s, unit) async" where
  "selectCategory env name =
     await (race [call (SettingsClickTab (lit ''Page'')) (settings_clickTab env (lit ''Page'')),
                  call (SettingsClickTab (lit ''Post'')) (settings_clickTab env (lit ''Post''))]) (\<lambda>_.
     await (call (SettingsExpandSection (lit ''Categories''))
                 (settings_expandSection env (lit ''Categories''))) (\<lambda>_.
     call (SettingsCheckCategory name) (settings_checkCategory env name)))"

definition addTag :: "'s env \<Rightarrow> jsstring \<Rightarrow> ('s, unit) async" where
  "addTag env tag =
     await (race [call (SettingsClickTab (lit ''Page'')) (settings_clickTab env (lit ''Page'')),
                  call (SettingsClickTab (lit ''Post'')) (settings_clickTab env (lit ''Post''))]) (\<lambda>_.
     await (call (SettingsExpandSection (lit ''Tags''))
                 (settings_expandSection env (lit ''Tags''))) (\<lambda>_.
     call (SettingsEnterTag tag) (settings_enterTag env tag)))"

definition setURLSlug :: "'s env \<Rightarrow> jsstring \<Rightarrow> ('s, unit) async" where
  "setURLSlug env slug =
     await (race [call (SettingsClickTab (lit ''Page'')) (settings_clickTab env (lit ''Page'')),
                  call (SettingsClickTab (lit ''Post'')) (settings_clickTab env (lit ''Post''))]) (\<lambda>_.
     await (call (SettingsExpandSection (lit ''Permalink''))
                 (settings_expandSection env (lit ''Permalink''))) (\<lambda>_.
     call (SettingsEnterUrlSlug slug) (settings_enterUrlSlug env slug)))"

definition schedule :: "'s env \<Rightarrow> 's \<Rightarrow> ('s, unit) async" where
  "schedule env date =
     await (race [call (SettingsClickTab (lit ''Page'')) (settings_clickTab env (lit ''Page'')),
                  call (SettingsClickTab (lit ''Post'')) (settings_clickTab env (lit ''Post''))]) (\<lambda>_.
     await (call (SettingsExpandSection (lit ''Status & Visibility''))
                 (settings_expandSection env (lit ''Status & Visibility''))) (\<lambda>_.
     await (call SettingsOpenSchedule (settings_openSchedule env)) (\<lambda>_.
     await (call (SettingsSetScheduleDetails date) (settings_setScheduleDetails env date)) (\<lambda>_.
     call SettingsCloseSchedule (settings_closeSchedule env)))))"


subsection \<open>Publish, draft\<close>

text \<open>
  \<^verbatim>\<open>frame.locator\<close> and \<^verbatim>\<open>frame.click\<close> on a \<^verbatim>\<open>null\<close> frame throw. The cast
  \<^verbatim>\<open>as string\<close> does not change a \<^verbatim>\<open>null\<close> attribute value; the \<^verbatim>\<open>URL\<close>
  constructor then converts it to the string \<^verbatim>\<open>null\<close>.
\<close>

definition getPublishedURLFromToast :: "'s env \<Rightarrow> EditorPage \<Rightarrow> ('s, URL) async" where
  "getPublishedURLFromToast env this =
     await (getEditorFrame env this) (\<lambda>frame.
       case frame of
         None \<Rightarrow> throw TypeError
       | Some f \<Rightarrow>
           await (call (FrameLocatorGetAttribute f toastViewPostLink (lit ''href''))
                       (frame_locator_getAttribute env f toastViewPostLink (lit ''href'')))
             (\<lambda>publishedURL.
                case new_URL env (case publishedURL of None \<Rightarrow> lit ''null'' | Some u \<Rightarrow> u) of
                  None \<Rightarrow> throw TypeError
                | Some url \<Rightarrow> return url))"

definition confirmPostShown :: "'s env \<Rightarrow> ('s, unit) async" where
  "confirmPostShown env =
     await (call (PageWaitForSelector (lit ''.entry-content'') (15 * 1000))
                 (page_waitForSelector env (lit ''.entry-content'') (15 * 1000)))
       (\<lambda>_. return ())"

definition visitPublishedPost :: "'s env \<Rightarrow> jsstring \<Rightarrow> ('s, unit) async" where
  "visitPublishedPost env url =
     await (emit PageOnceDialog) (\<lambda>_.
     await (call (PageGoto url (lit ''domcontentloaded''))
                 (page_goto env url (lit ''domcontentloaded''))) (\<lambda>_.
     await (emit ReloadAndRetry) (\<lambda>_.
     reloadAndRetry env (confirmPostShown env))))"

text \<open>
  The two sources of \<^verbatim>\<open>publish\<close> run concurrently. The record lists the calls of the
  toast source where the race is started, although the source makes the calls that
  follow its first \<^verbatim>\<open>await\<close> later, possibly after \<^verbatim>\<open>publish\<close> has gone on or
  returned: of \<^verbatim>\<open>publish\<close> the record gives the calls made, not their order, and the
  results below are about its outcome only.
\<close>

definition publish :: "'s env \<Rightarrow> EditorPage \<Rightarrow> bool \<Rightarrow> ('s, URL) async" where
  "publish env this visit =
     await (call ToolbarClickPublish (toolbar_clickPublish env)) (\<lambda>_.
     await (call PublishPanelIsOpen (publishPanel_panelIsOpen env)) (\<lambda>isOpen.
     await (if isOpen then call PublishPanelPublish (publishPanel_publish env) else return ()) (\<lambda>_.
     await (race [call PublishPanelGetPublishedURL (publishPanel_getPublishedURL env),
                  getPublishedURLFromToast env this]) (\<lambda>publishedURL.
     await (if visit then visitPublishedPost env (href publishedURL) else return ()) (\<lambda>_.
     return publishedURL)))))"

definition unpublish :: "'s env \<Rightarrow> EditorPage \<Rightarrow> ('s, unit) async" where
  "unpublish env this =
     await (call ToolbarSwitchToDraft (toolbar_switchToDraft env)) (\<lambda>_.
     await (getEditorFrame env this) (\<lambda>frame.
       case frame of
         None \<Rightarrow> throw TypeError
       | Some f \<Rightarrow>
           await (call (FrameClick f (lit ''div[role=\"dialog\"] button:has-text(\"OK\")''))
                       (frame_click env f (lit ''div[role=\"dialog\"] button:has-text(\"OK\")''))) (\<lambda>_.
           await (call (FrameWaitForSelector f
                          (lit ''.components-editor-notices__snackbar :has-text(\"Post reverted to draft.\")''))
                       (frame_waitForSelector env f
                          (lit ''.components-editor-notices__snackbar :has-text(\"Post reverted to draft.\")'')))
             (\<lambda>_. return ()))))"

subsection \<open>Previews, leaving the editor\<close>

definition previewAsMobile :: "'s env \<Rightarrow> ('s, Page) async" where
  "previewAsMobile env =
     (if VIEWPORT_NAME env \<noteq> lit ''mobile''
      then throw (ModeMismatch (lit ''mobile'') (VIEWPORT_NAME env))
      else call ToolbarOpenMobilePreview (toolbar_openMobilePreview env))"

definition previewAsDesktop :: "'s env \<Rightarrow> jsstring \<Rightarrow> ('s, unit) async" where
  "previewAsDesktop env target =
     (if VIEWPORT_NAME env = lit ''mobile''
      then throw (ModeMismatch (lit ''non-mobile'') (VIEWPORT_NAME env))
      else call (ToolbarOpenDesktopPreview target) (toolbar_openDesktopPreview env target))"




section \<open>A sample session\<close>

text \<open>
  One concrete behaviour of the collaborators, on which the results below are run: a
  desktop viewport editing a post inside the iframe. Every call settles after one
  instant, except that only the \<^verbatim>\<open>Post\<close> tab exists and only the \<^verbatim>\<open>**/home/**\<close>
  navigation happens (the other clicks and waits time out). The stand-in for the
  \<^verbatim>\<open>URL\<close> constructor accepts absolute \<^verbatim>\<open>https\<close> URLs only. A \<open>Schedule\<close> is a
  string here.
\<close>

definition session :: "jsstring env" where
  "session = \<lparr>
     VIEWPORT_NAME = lit ''desktop'',
     new_URL = (\<lambda>s. if take 8 s = lit ''https://'' then Some (URL s) else None),
     reloadAndRetry = (\<lambda>func. func),
     page_url = (\<lambda>_. lit ''https://wordpress.com/post''),
     page_locator_elementHandle = (\<lambda>_ _ _. Fulfilled 1 (Some (ElementHandle 0))),
     elementHandle_contentFrame = (\<lambda>_ _. Fulfilled 1 (Some (ChildFrame 0))),
     page_goto = (\<lambda>_ _ _. Fulfilled 1 (Some (Response 0))),
     page_waitForSelector = (\<lambda>_ _ _. Fulfilled 1 (ElementHandle 1)),
     page_waitForNavigation = (\<lambda>url _. if url = lit ''**/home/**'' then Fulfilled 2 (Some (Response 1))
                                 else Rejected 30 (TimeoutError (lit ''page.waitForNavigation''))),
     frame_click = (\<lambda>_ _ _. Fulfilled 1 ()),
     frame_waitForSelector = (\<lambda>_ _ _. Fulfilled 1 (ElementHandle 2)),
     frame_locator_getAttribute = (\<lambda>_ _ _ _. Fulfilled 1 (Some (lit ''https://example.wordpress.com/hello/''))),
     gutenberg_enterTitle = (\<lambda>_ _. Fulfilled 1 ()),
     gutenberg_getTitle = (\<lambda>_. Fulfilled 1 (lit ''Hello'')),
     gutenberg_enterText = (\<lambda>_ _. Fulfilled 1 ()),
     gutenberg_getText = (\<lambda>_. Fulfilled 1 (lit ''Hello'')),
     gutenberg_resetSelectedBlock = (\<lambda>_. Fulfilled 1 ()),
     gutenberg_searchBlockInserter = (\<lambda>_ _. Fulfilled 1 ()),
     gutenberg_selectBlockInserterResult = (\<lambda>_ _. Fulfilled 1 ()),
     gutenberg_getSelectedBlockElementHandle = (\<lambda>_ _. Fulfilled 1 (ElementHandle 3)),
     toolbar_openBlockInserter = (\<lambda>_. Fulfilled 1 ()),
     toolbar_closeBlockInserter = (\<lambda>_. Fulfilled 1 ()),
     toolbar_closeSettings = (\<lambda>_. Fulfilled 1 ()),
     toolbar_clickPublish = (\<lambda>_. Fulfilled 1 ()),
     toolbar_switchToDraft = (\<lambda>_. Fulfilled 1 ()),
     toolbar_openMobilePreview = (\<lambda>_. Fulfilled 1 (Page 1)),
     toolbar_openDesktopPreview = (\<lambda>_ _. Fulfilled 1 ()),
     settings_clickTab = (\<lambda>tab _. if tab = lit ''Post'' then Fulfilled 1 ()
                               else Rejected 30 (TimeoutError (lit ''locator.click''))),
     settings_expandSection = (\<lambda>_ _. Fulfilled 1 ()),
     settings_openVisibilityOptions = (\<lambda>_. Fulfilled 1 ()),
     settings_selectVisibility = (\<lambda>_ _ _. Fulfilled 1 ()),
     settings_closeVisibilityOptions = (\<lambda>_. Fulfilled 1 ()),
     settings_checkCategory = (\<lambda>_ _. Fulfilled 1 ()),
     settings_enterTag = (\<lambda>_ _. Fulfilled 1 ()),
     settings_enterUrlSlug = (\<lambda>_ _. Fulfilled 1 ()),
     settings_openSchedule = (\<lambda>_. Fulfilled 1 ()),
     settings_setScheduleDetails = (\<lambda>_ _. Fulfilled 1 ()),
     settings_closeSchedule = (\<lambda>_. Fulfilled 1 ()),
     publishPanel_closePanel = (\<lambda>_. Fulfilled 1 ()),
     publishPanel_panelIsOpen = (\<lambda>_. Fulfilled 1 True),
     publishPanel_publish = (\<lambda>_. Fulfilled 1 ()),
     publishPanel_getPublishedURL = (\<lambda>_. Fulfilled 1 (URL (lit ''https://example.wordpress.com/hello/''))),
     navSidebar_openSidebar = (\<lambda>_. Fulfilled 1 ()),
     navSidebar_closeSidebar = (\<lambda>_. Fulfilled 1 ()),
     navSidebar_exitEditor = (\<lambda>_. Fulfilled 1 ()),
     navbar_clickMySites = (\<lambda>_. Fulfilled 1 ())
   \<rparr>"


text \<open>Variations of the sample session.\<close>

definition mobile_session :: "jsstring env" where
  "mobile_session = session\<lparr>VIEWPORT_NAME := lit ''mobile''\<rparr>"

definition wpadmin_session :: "jsstring env" where
  "wpadmin_session =
     session\<lparr>page_url := (\<lambda>_. lit ''https://example.wordpress.com/wp-admin/post-new.php'')\<rparr>"

definition no_iframe_session :: "jsstring env" where
  "no_iframe_session =
     session\<lparr>page_locator_elementHandle :=
               (\<lambda>_ _ _. Rejected 105000 (TimeoutError (lit ''locator.elementHandle'')))\<rparr>"

definition altered_title_session :: "jsstring env" where
  "altered_title_session = session\<lparr>gutenberg_getTitle := (\<lambda>_. Fulfilled 1 (lit ''Hello!''))\<rparr>"

definition stuck_panel_session :: "jsstring env" where
  "stuck_panel_session =
     session\<lparr>publishPanel_closePanel := (\<lambda>_. Rejected 1 (TimeoutError (lit ''locator.click'')))\<rparr>"

definition no_notice_session :: "jsstring env" where
  "no_notice_session =
     session\<lparr>frame_waitForSelector :=
               (\<lambda>_ _ _. Rejected 30000 (TimeoutError (lit ''frame.waitForSelector'')))\<rparr>"

definition home_only_session :: "jsstring env" where
  "home_only_session =
     session\<lparr>page_waitForNavigation :=
               (\<lambda>url _. if url = lit ''**/home/**'' then Fulfilled 2 (Some (Response 1))
                        else Pending)\<rparr>"

definition failed_exit_session :: "jsstring env" where
  "failed_exit_session =
     session\<lparr>navSidebar_exitEditor := (\<lambda>_. Rejected 3 (TimeoutError (lit ''locator.click'')))\<rparr>"

definition slow_exit_session :: "jsstring env" where
  "slow_exit_session = session\<lparr>navSidebar_exitEditor := (\<lambda>_. Fulfilled 5 ())\<rparr>"

definition relative_toast_session :: "jsstring env" where
  "relative_toast_session =
     session\<lparr>frame_locator_getAttribute := (\<lambda>_ _ _ _. Fulfilled 1 (Some (lit ''/?p=42''))),
             publishPanel_getPublishedURL :=
               (\<lambda>_. Fulfilled 5 (URL (lit ''https://example.wordpress.com/hello/'')))\<rparr>"

definition late_frame_session :: "jsstring env" where
  "late_frame_session =
     session\<lparr>page_locator_elementHandle :=
               (\<lambda>_ _ _. Rejected 105000 (TimeoutError (lit ''locator.elementHandle''))),
             publishPanel_panelIsOpen := (\<lambda>_. Fulfilled 1 False),
             publishPanel_getPublishedURL :=
               (\<lambda>_. Rejected 30000 (TimeoutError (lit ''locator.getAttribute'')))\<rparr>"

definition broken_inserter_session :: "nat \<Rightarrow> jsstring env" where
  "broken_inserter_session k =
     session\<lparr>gutenberg_resetSelectedBlock :=
               (\<lambda>_. if k = 1 then Rejected 1 (TimeoutError (lit ''step'')) else Fulfilled 1 ()),
             toolbar_openBlockInserter :=
               (\<lambda>_. if k = 2 then Rejected 1 (TimeoutError (lit ''step'')) else Fulfilled 1 ()),
             gutenberg_searchBlockInserter :=
               (\<lambda>_ _. if k = 3 then Rejected 1 (TimeoutError (lit ''step'')) else Fulfilled 1 ()),
             gutenberg_selectBlockInserterResult :=
               (\<lambda>_ _. if k = 4 then Rejected 1 (TimeoutError (lit ''step'')) else Fulfilled 1 ()),
             gutenberg_getSelectedBlockElementHandle :=
               (\<lambda>_ _. if k = 5 then Rejected 1 (TimeoutError (lit ''step''))
                       else Fulfilled 1 (ElementHandle 3))\<rparr>"

definition failing_page_tab_session :: "jsstring env" where
  "failing_page_tab_session =
     session\<lparr>settings_clickTab :=
               (\<lambda>tab _. if tab = lit ''Post'' then Fulfilled 2 ()
                        else Rejected 1 (TimeoutError (lit ''locator.click'')))\<rparr>"

text \<open>
  \<open>steps\<close> runs a list of collaborator calls one after the other, each awaited before
  the next is started; it is how the results below spell out the rest of a workflow.
\<close>

fun steps :: "('s event \<times> ('s event list \<Rightarrow> unit promise)) list \<Rightarrow> ('s, unit) async" where
  "steps [] = return ()"
| "steps ((ev, respond) # rest) = await (call ev respond) (\<lambda>_. steps rest)"


section \<open>Evaluation rules\<close>

lemmas async_defs = return_def throw_def settle_def call_def emit_def read_def await_def
  try_catch_def start_def race_def allSettled_def

lemmas session_defs = session_def mobile_session_def wpadmin_session_def no_iframe_session_def
  altered_title_session_def stuck_panel_session_def no_notice_session_def
  home_only_session_def failed_exit_session_def slow_exit_session_def relative_toast_session_def
  failing_page_tab_session_def late_frame_session_def broken_inserter_session_def

lemmas string_defs = lit_def trim_def isTrimmed_def isWhiteSpace_def isLineTerminator_def

lemma delay_0 [simp]: "delay 0 p = p"
  by (cases p) simp_all

lemma delay_delay [simp]: "delay a (delay b p) = delay (a + b) p"
  by (cases p) simp_all

lemma await_return [simp]: "await m return = m"
  by (rule ext) (simp add: async_defs split: promise.splits prod.splits)

lemma race_of_two_calls:
  "race [call e1 o1, call e2 o2] tr = settle (Promise_race [o1 tr, o2 (tr @ [e1])]) (tr @ [e1, e2])"
  by (simp add: race_def call_def settle_def)

lemma sooner_Pending [simp]: "sooner p Pending = p"
  by (cases p) (simp_all add: sooner_def)

text \<open>A race in which one outcome is the only one that ever settles has that outcome.\<close>

lemma race_of_one_kind:
  "\<forall>q \<in> set ps. q = Fulfilled t r \<or> q = Pending
     \<Longrightarrow> Promise_race ps = (if Fulfilled t r \<in> set ps then Fulfilled t r else Pending)"
  unfolding Promise_race_def
  by (induction ps) (auto simp add: sooner_def)


text \<open>A list of steps, awaited after a settled promise, only adds calls to the record.\<close>

lemma steps_extends: "\<exists>evs. snd (steps cs tr) = tr @ evs"
proof (induction cs arbitrary: tr)
  case Nil
  show ?case by (simp add: return_def)
next
  case (Cons c cs)
  obtain ev respond where c: "c = (ev, respond)" by (cases c)
  show ?case
  proof (cases "respond tr")
    case (Fulfilled t u)
    obtain evs where "snd (steps cs (tr @ [ev])) = (tr @ [ev]) @ evs"
      using Cons.IH [of "tr @ [ev]"] by blast
    then show ?thesis
      using Fulfilled c by (auto simp add: await_def call_def split: prod.splits)
  next
    case (Rejected t e)
    then show ?thesis using c by (simp add: await_def call_def)
  next
    case Pending
    then show ?thesis using c by (simp add: await_def call_def)
  qed
qed

lemma after_settled_extends: "\<exists>evs. snd (await (settle p) (\<lambda>_. steps cs) tr) = tr @ evs"
  using steps_extends [of cs tr]
  by (cases p) (auto simp add: await_def settle_def split: prod.splits)

text \<open>\<^verbatim>\<open>getEditorFrame\<close> only adds calls to the record.\<close>

lemma getEditorFrame_extends: "\<exists>evs. snd (getEditorFrame env this tr) = tr @ evs"
  by (auto simp add: getEditorFrame_def async_defs split: promise.splits prod.splits option.splits)


section \<open>Title and text entry\<close>

text \<open>
  C1. For every string \<open>s\<close>: when the write of \<open>s\<close> into the title field completes and the
  read-back yields \<open>observed\<close>, \<open>enterTitle s\<close> has made exactly these two calls, in this
  order; it completes normally if and only if \<open>observed\<close> equals \<open>trim s\<close>, and otherwise
  fails with the verification-mismatch error, which reports the untrimmed read-back and
  the trimmed input.
\<close>

theorem enterTitle_verifies:
  assumes "gutenberg_enterTitle env s tr = Fulfilled t1 ()"
    and "gutenberg_getTitle env (tr @ [GutenbergEnterTitle s]) = Fulfilled t2 observed"
  shows "enterTitle env s tr =
           (if observed = trim s then Fulfilled (t1 + t2) ()
            else Rejected (t1 + t2) (VerificationMismatch observed (trim s)),
            tr @ [GutenbergEnterTitle s, GutenbergGetTitle])"
  using assms by (simp add: enterTitle_def async_defs)

text \<open>
  The scenarios of the specification: the title \<^verbatim>\<open>"  Hello  "\<close> read back as
  \<^verbatim>\<open>"Hello"\<close> passes; the title \<^verbatim>\<open>"Hello"\<close> read back as \<^verbatim>\<open>"Hello!"\<close> is a
  mismatch.
\<close>

theorem enterTitle_verifies_witness:
  "gutenberg_enterTitle session (lit ''  Hello  '') [] = Fulfilled 1 ()
   \<and> gutenberg_getTitle session [GutenbergEnterTitle (lit ''  Hello  '')] = Fulfilled 1 (lit ''Hello'')
   \<and> enterTitle session (lit ''  Hello  '') [] =
       (Fulfilled 2 (), [GutenbergEnterTitle (lit ''  Hello  ''), GutenbergGetTitle])
   \<and> enterTitle altered_title_session (lit ''Hello'') [] =
       (Rejected 2 (VerificationMismatch (lit ''Hello!'') (lit ''Hello'')),
        [GutenbergEnterTitle (lit ''Hello''), GutenbergGetTitle])"
  using enterTitle_verifies [where env = session and s = "lit ''  Hello  ''" and tr = "[]"
      and ?t1.0 = 1 and ?t2.0 = 1 and observed = "lit ''Hello''"]
    enterTitle_verifies [where env = altered_title_session and s = "lit ''Hello''" and tr = "[]"
      and ?t1.0 = 1 and ?t2.0 = 1 and observed = "lit ''Hello!''"]
  by (simp add: session_defs string_defs)

text \<open>
  C2. For every text whose read-back differs from it: when the write and the read-back
  complete, \<open>enterText\<close> completes normally, without any error; the mismatch message is
  built and dropped.
\<close>

theorem enterText_unverified:
  assumes "gutenberg_enterText env content tr = Fulfilled t1 ()"
    and "gutenberg_getText env (tr @ [GutenbergEnterText content]) = Fulfilled t2 enteredText"
    and "enteredText \<noteq> content"
  shows "enterText env content tr =
           (Fulfilled (t1 + t2) (), tr @ [GutenbergEnterText content, GutenbergGetText])"
  using assms by (simp add: enterText_def async_defs)

theorem enterText_unverified_witness:
  "gutenberg_getText session [GutenbergEnterText (lit ''Goodbye'')] = Fulfilled 1 (lit ''Hello'')
   \<and> lit ''Hello'' \<noteq> lit ''Goodbye''
   \<and> enterText session (lit ''Goodbye'') [] =
       (Fulfilled 2 (), [GutenbergEnterText (lit ''Goodbye''), GutenbergGetText])"
  using enterText_unverified [where env = session and content = "lit ''Goodbye''" and tr = "[]"
      and ?t1.0 = 1 and ?t2.0 = 1 and enteredText = "lit ''Hello''"]
  by (simp add: session_defs string_defs)


section \<open>Locating the editor frame\<close>

text \<open>
  C4. When strict mode is off and the current URL contains \<^verbatim>\<open>/wp-admin\<close>,
  \<open>getEditorFrame\<close> returns the top-level frame at once and makes no call (it does not
  search for the iframe). When the search is made and the bounded wait for the iframe is
  rejected, it fails with the surface-not-found error in strict mode, and otherwise
  records the notice on the console and returns the top-level frame.
\<close>

theorem getEditorFrame_fallbacks:
  "(\<not> requiresGutenframe this \<and> String_includes (page_url env tr) (lit ''/wp-admin'')
      \<longrightarrow> getEditorFrame env this tr = (Fulfilled 0 (Some MainFrame), tr))
   \<and> ((requiresGutenframe this \<or> \<not> String_includes (page_url env tr) (lit ''/wp-admin''))
       \<and> page_locator_elementHandle env editorFrame (105 * 1000) tr = Rejected t e
      \<longrightarrow> getEditorFrame env this tr =
            (if requiresGutenframe this
             then (Rejected t SurfaceNotFound, tr @ [PageLocatorElementHandle editorFrame (105 * 1000)])
             else (Fulfilled t (Some MainFrame),
                   tr @ [PageLocatorElementHandle editorFrame (105 * 1000), ConsoleInfo (lit ''Could not locate editor iframe. Returning the top-level frame instead'')])))"
  by (auto simp add: getEditorFrame_def async_defs)

theorem getEditorFrame_fallbacks_witness:
  "String_includes (page_url wpadmin_session []) (lit ''/wp-admin'')
   \<and> getEditorFrame wpadmin_session \<lparr>requiresGutenframe = False\<rparr> [] =
       (Fulfilled 0 (Some MainFrame), [])
   \<and> \<not> String_includes (page_url no_iframe_session []) (lit ''/wp-admin'')
   \<and> getEditorFrame no_iframe_session \<lparr>requiresGutenframe = True\<rparr> [] =
       (Rejected 105000 SurfaceNotFound, [PageLocatorElementHandle editorFrame 105000])
   \<and> getEditorFrame no_iframe_session \<lparr>requiresGutenframe = False\<rparr> [] =
       (Fulfilled 105000 (Some MainFrame),
        [PageLocatorElementHandle editorFrame 105000, ConsoleInfo (lit ''Could not locate editor iframe. Returning the top-level frame instead'')])"
  using getEditorFrame_fallbacks [where env = wpadmin_session and tr = "[]"
      and this = "\<lparr>requiresGutenframe = False\<rparr>"]
    getEditorFrame_fallbacks [where env = no_iframe_session and tr = "[]"
      and this = "\<lparr>requiresGutenframe = True\<rparr>" and t = 105000
      and e = "TimeoutError (lit ''locator.elementHandle'')"]
    getEditorFrame_fallbacks [where env = no_iframe_session and tr = "[]"
      and this = "\<lparr>requiresGutenframe = False\<rparr>" and t = 105000
      and e = "TimeoutError (lit ''locator.elementHandle'')"]
  by (simp add: session_defs lit_def)


section \<open>Previews\<close>

text \<open>
  C5. Under any viewport other than \<^verbatim>\<open>mobile\<close>, \<open>previewAsMobile\<close> fails with the
  mode-mismatch error, and under the \<^verbatim>\<open>mobile\<close> viewport \<open>previewAsDesktop\<close> does, for
  every target; in both cases at once and with no call made on any collaborator.
\<close>

theorem preview_mode_mismatch:
  "(VIEWPORT_NAME env \<noteq> lit ''mobile''
      \<longrightarrow> previewAsMobile env tr = (Rejected 0 (ModeMismatch (lit ''mobile'') (VIEWPORT_NAME env)), tr))
   \<and> (VIEWPORT_NAME env = lit ''mobile''
      \<longrightarrow> previewAsDesktop env target tr =
            (Rejected 0 (ModeMismatch (lit ''non-mobile'') (VIEWPORT_NAME env)), tr))"
  by (simp add: previewAsMobile_def previewAsDesktop_def async_defs)

theorem preview_mode_mismatch_witness:
  "VIEWPORT_NAME session \<noteq> lit ''mobile''
   \<and> previewAsMobile session [] = (Rejected 0 (ModeMismatch (lit ''mobile'') (lit ''desktop'')), [])
   \<and> VIEWPORT_NAME mobile_session = lit ''mobile''
   \<and> previewAsDesktop mobile_session (lit ''Tablet'') [] =
       (Rejected 0 (ModeMismatch (lit ''non-mobile'') (lit ''mobile'')), [])"
  using preview_mode_mismatch [where env = session and tr = "[]"]
    preview_mode_mismatch [where env = mobile_session and tr = "[]" and target = "lit ''Tablet''"]
  by (simp add: session_defs lit_def)


section \<open>Adding a block\<close>

text \<open>
  C6. For every block name and selector, \<open>addBlock\<close> performs its steps one after the
  other, each awaited before the next is started: reset the block selection, open the
  block inserter, search for the name, select the result for the name, obtain the handle
  of the inserted block. When the five succeed, it closes the inserter exactly when the
  viewport is not \<^verbatim>\<open>mobile\<close>: in the \<^verbatim>\<open>mobile\<close> viewport it returns the handle obtained
  without a further call; otherwise it makes the closing call and returns the handle
  obtained once that call has succeeded (and fails as that call fails). In the
  \<^verbatim>\<open>mobile\<close> viewport it never makes the closing call, whatever the outcome of the
  steps. A step that fails ends \<open>addBlock\<close> with the error of the step, and no later
  step is started.
\<close>

theorem addBlock_steps:
  "(gutenberg_resetSelectedBlock env tr = Fulfilled t1 ()
    \<and> toolbar_openBlockInserter env (tr @ [GutenbergResetSelectedBlock]) = Fulfilled t2 ()
    \<and> gutenberg_searchBlockInserter env blockName
         (tr @ [GutenbergResetSelectedBlock, ToolbarOpenBlockInserter]) = Fulfilled t3 ()
    \<and> gutenberg_selectBlockInserterResult env blockName
         (tr @ [GutenbergResetSelectedBlock, ToolbarOpenBlockInserter,
                GutenbergSearchBlockInserter blockName]) = Fulfilled t4 ()
    \<and> gutenberg_getSelectedBlockElementHandle env sel
         (tr @ [GutenbergResetSelectedBlock, ToolbarOpenBlockInserter,
                GutenbergSearchBlockInserter blockName,
                GutenbergSelectBlockInserterResult blockName]) = Fulfilled t5 blockHandle
    \<longrightarrow> addBlock env blockName sel tr =
          (if VIEWPORT_NAME env \<noteq> lit ''mobile''
           then (case toolbar_closeBlockInserter env
                        (tr @ [GutenbergResetSelectedBlock, ToolbarOpenBlockInserter,
                               GutenbergSearchBlockInserter blockName,
                               GutenbergSelectBlockInserterResult blockName,
                               GutenbergGetSelectedBlockElementHandle sel]) of
                   Fulfilled t6 closed \<Rightarrow> Fulfilled (t1 + (t2 + (t3 + (t4 + (t5 + t6))))) blockHandle
                 | Rejected t6 e \<Rightarrow> Rejected (t1 + (t2 + (t3 + (t4 + (t5 + t6))))) e
                 | Pending \<Rightarrow> Pending,
                 tr @ [GutenbergResetSelectedBlock, ToolbarOpenBlockInserter,
                       GutenbergSearchBlockInserter blockName,
                       GutenbergSelectBlockInserterResult blockName,
                       GutenbergGetSelectedBlockElementHandle sel, ToolbarCloseBlockInserter])
           else (Fulfilled (t1 + (t2 + (t3 + (t4 + t5)))) blockHandle,
                 tr @ [GutenbergResetSelectedBlock, ToolbarOpenBlockInserter,
                       GutenbergSearchBlockInserter blockName,
                       GutenbergSelectBlockInserterResult blockName,
                       GutenbergGetSelectedBlockElementHandle sel])))
   \<and> (VIEWPORT_NAME env = lit ''mobile'' \<longrightarrow>
        ToolbarCloseBlockInserter \<notin> set (drop (length tr) (snd (addBlock env blockName sel tr))))
   \<and> (gutenberg_resetSelectedBlock env tr = Rejected t1 e
      \<longrightarrow> addBlock env blockName sel tr = (Rejected t1 e, tr @ [GutenbergResetSelectedBlock]))
   \<and> (gutenberg_resetSelectedBlock env tr = Fulfilled t1 ()
      \<and> toolbar_openBlockInserter env (tr @ [GutenbergResetSelectedBlock]) = Rejected t2 e
      \<longrightarrow> addBlock env blockName sel tr =
            (Rejected (t1 + t2) e, tr @ [GutenbergResetSelectedBlock, ToolbarOpenBlockInserter]))
   \<and> (gutenberg_resetSelectedBlock env tr = Fulfilled t1 ()
      \<and> toolbar_openBlockInserter env (tr @ [GutenbergResetSelectedBlock]) = Fulfilled t2 ()
      \<and> gutenberg_searchBlockInserter env blockName
           (tr @ [GutenbergResetSelectedBlock, ToolbarOpenBlockInserter]) = Rejected t3 e
      \<longrightarrow> addBlock env blockName sel tr =
            (Rejected (t1 + (t2 + t3)) e,
             tr @ [GutenbergResetSelectedBlock, ToolbarOpenBlockInserter,
                   GutenbergSearchBlockInserter blockName]))
   \<and> (gutenberg_resetSelectedBlock env tr = Fulfilled t1 ()
      \<and> toolbar_openBlockInserter env (tr @ [GutenbergResetSelectedBlock]) = Fulfilled t2 ()
      \<and> gutenberg_searchBlockInserter env blockName
           (tr @ [GutenbergResetSelectedBlock, ToolbarOpenBlockInserter]) = Fulfilled t3 ()
      \<and> gutenberg_selectBlockInserterResult env blockName
           (tr @ [GutenbergResetSelectedBlock, ToolbarOpenBlockInserter,
                  GutenbergSearchBlockInserter blockName]) = Rejected t4 e
      \<longrightarrow> addBlock env blockName sel tr =
            (Rejected (t1 + (t2 + (t3 + t4))) e,
             tr @ [GutenbergResetSelectedBlock, ToolbarOpenBlockInserter,
                   GutenbergSearchBlockInserter blockName,
                   GutenbergSelectBlockInserterResult blockName]))
   \<and> (gutenberg_resetSelectedBlock env tr = Fulfilled t1 ()
      \<and> toolbar_openBlockInserter env (tr @ [GutenbergResetSelectedBlock]) = Fulfilled t2 ()
      \<and> gutenberg_searchBlockInserter env blockName
           (tr @ [GutenbergResetSelectedBlock, ToolbarOpenBlockInserter]) = Fulfilled t3 ()
      \<and> gutenberg_selectBlockInserterResult env blockName
           (tr @ [GutenbergResetSelectedBlock, ToolbarOpenBlockInserter,
                  GutenbergSearchBlockInserter blockName]) = Fulfilled t4 ()
      \<and> gutenberg_getSelectedBlockElementHandle env sel
           (tr @ [GutenbergResetSelectedBlock, ToolbarOpenBlockInserter,
                  GutenbergSearchBlockInserter blockName,
                  GutenbergSelectBlockInserterResult blockName]) = Rejected t5 e
      \<longrightarrow> addBlock env blockName sel tr =
            (Rejected (t1 + (t2 + (t3 + (t4 + t5)))) e,
             tr @ [GutenbergResetSelectedBlock, ToolbarOpenBlockInserter,
                   GutenbergSearchBlockInserter blockName,
                   GutenbergSelectBlockInserterResult blockName,
                   GutenbergGetSelectedBlockElementHandle sel]))"
proof (intro conjI impI)
  assume "VIEWPORT_NAME env = lit ''mobile''"
  then show "ToolbarCloseBlockInserter \<notin> set (drop (length tr) (snd (addBlock env blockName sel tr)))"
    by (simp add: addBlock_def async_defs split: promise.splits prod.splits)
qed (simp_all add: addBlock_def return_def call_def await_def split: promise.splits)

text \<open>
  The scenario of the specification: adding the block \<^verbatim>\<open>Quote\<close> closes the inserter in
  the desktop viewport and does not in the \<^verbatim>\<open>mobile\<close> viewport. In the five sessions
  that follow, the first, second, third, fourth and fifth step fails.
\<close>

theorem addBlock_steps_witness:
  "addBlock session (lit ''Quote'') (lit ''[aria-label=\"Block: Quote\"]'') [] =
     (Fulfilled 6 (ElementHandle 3),
      [GutenbergResetSelectedBlock, ToolbarOpenBlockInserter,
       GutenbergSearchBlockInserter (lit ''Quote''),
       GutenbergSelectBlockInserterResult (lit ''Quote''),
       GutenbergGetSelectedBlockElementHandle (lit ''[aria-label=\"Block: Quote\"]''),
       ToolbarCloseBlockInserter])
   \<and> addBlock mobile_session (lit ''Quote'') (lit ''[aria-label=\"Block: Quote\"]'') [] =
     (Fulfilled 5 (ElementHandle 3),
      [GutenbergResetSelectedBlock, ToolbarOpenBlockInserter,
       GutenbergSearchBlockInserter (lit ''Quote''),
       GutenbergSelectBlockInserterResult (lit ''Quote''),
       GutenbergGetSelectedBlockElementHandle (lit ''[aria-label=\"Block: Quote\"]'')])
   \<and> addBlock (broken_inserter_session 1) (lit ''Quote'') (lit ''[aria-label=\"Block: Quote\"]'') [] =
     (Rejected 1 (TimeoutError (lit ''step'')), [GutenbergResetSelectedBlock])
   \<and> addBlock (broken_inserter_session 2) (lit ''Quote'') (lit ''[aria-label=\"Block: Quote\"]'') [] =
     (Rejected 2 (TimeoutError (lit ''step'')),
      [GutenbergResetSelectedBlock, ToolbarOpenBlockInserter])
   \<and> addBlock (broken_inserter_session 3) (lit ''Quote'') (lit ''[aria-label=\"Block: Quote\"]'') [] =
     (Rejected 3 (TimeoutError (lit ''step'')),
      [GutenbergResetSelectedBlock, ToolbarOpenBlockInserter,
       GutenbergSearchBlockInserter (lit ''Quote'')])
   \<and> addBlock (broken_inserter_session 4) (lit ''Quote'') (lit ''[aria-label=\"Block: Quote\"]'') [] =
     (Rejected 4 (TimeoutError (lit ''step'')),
      [GutenbergResetSelectedBlock, ToolbarOpenBlockInserter,
       GutenbergSearchBlockInserter (lit ''Quote''),
       GutenbergSelectBlockInserterResult (lit ''Quote'')])
   \<and> addBlock (broken_inserter_session 5) (lit ''Quote'') (lit ''[aria-label=\"Block: Quote\"]'') [] =
     (Rejected 5 (TimeoutError (lit ''step'')),
      [GutenbergResetSelectedBlock, ToolbarOpenBlockInserter,
       GutenbergSearchBlockInserter (lit ''Quote''),
       GutenbergSelectBlockInserterResult (lit ''Quote''),
       GutenbergGetSelectedBlockElementHandle (lit ''[aria-label=\"Block: Quote\"]'')])"
  using addBlock_steps [where env = session and tr = "[]" and blockName = "lit ''Quote''"
      and sel = "lit ''[aria-label=\"Block: Quote\"]''" and blockHandle = "ElementHandle 3"
      and ?t1.0 = 1 and ?t2.0 = 1 and ?t3.0 = 1 and ?t4.0 = 1 and ?t5.0 = 1, THEN conjunct1]
    addBlock_steps [where env = mobile_session and tr = "[]" and blockName = "lit ''Quote''"
      and sel = "lit ''[aria-label=\"Block: Quote\"]''" and blockHandle = "ElementHandle 3"
      and ?t1.0 = 1 and ?t2.0 = 1 and ?t3.0 = 1 and ?t4.0 = 1 and ?t5.0 = 1, THEN conjunct1]
    addBlock_steps [where env = "broken_inserter_session 1" and tr = "[]"
      and blockName = "lit ''Quote''" and sel = "lit ''[aria-label=\"Block: Quote\"]''" and e = "TimeoutError (lit ''step'')"
      and ?t1.0 = 1 and ?t2.0 = 1 and ?t3.0 = 1 and ?t4.0 = 1 and ?t5.0 = 1, THEN conjunct2, THEN conjunct2, THEN conjunct1]
    addBlock_steps [where env = "broken_inserter_session 2" and tr = "[]"
      and blockName = "lit ''Quote''" and sel = "lit ''[aria-label=\"Block: Quote\"]''" and e = "TimeoutError (lit ''step'')"
      and ?t1.0 = 1 and ?t2.0 = 1 and ?t3.0 = 1 and ?t4.0 = 1 and ?t5.0 = 1, THEN conjunct2, THEN conjunct2, THEN conjunct2, THEN conjunct1]
    addBlock_steps [where env = "broken_inserter_session 3" and tr = "[]"
      and blockName = "lit ''Quote''" and sel = "lit ''[aria-label=\"Block: Quote\"]''" and e = "TimeoutError (lit ''step'')"
      and ?t1.0 = 1 and ?t2.0 = 1 and ?t3.0 = 1 and ?t4.0 = 1 and ?t5.0 = 1, THEN conjunct2, THEN conjunct2, THEN conjunct2, THEN conjunct2, THEN conjunct1]
    addBlock_steps [where env = "broken_inserter_session 4" and tr = "[]"
      and blockName = "lit ''Quote''" and sel = "lit ''[aria-label=\"Block: Quote\"]''" and e = "TimeoutError (lit ''step'')"
      and ?t1.0 = 1 and ?t2.0 = 1 and ?t3.0 = 1 and ?t4.0 = 1 and ?t5.0 = 1, THEN conjunct2, THEN conjunct2, THEN conjunct2, THEN conjunct2, THEN conjunct2, THEN conjunct1]
    addBlock_steps [where env = "broken_inserter_session 5" and tr = "[]"
      and blockName = "lit ''Quote''" and sel = "lit ''[aria-label=\"Block: Quote\"]''" and e = "TimeoutError (lit ''step'')"
      and ?t1.0 = 1 and ?t2.0 = 1 and ?t3.0 = 1 and ?t4.0 = 1 and ?t5.0 = 1, THEN conjunct2, THEN conjunct2, THEN conjunct2, THEN conjunct2, THEN conjunct2, THEN conjunct2]
  by (simp add: session_defs lit_def)


section \<open>Closing the panels\<close>

text \<open>
  C9. \<open>closeAllPanels\<close> always starts the three closing calls (publish panel, navigation
  sidebar, settings panel), whatever their outcomes, and never fails; once the three
  calls have settled, by success or by failure, it completes normally.
\<close>

theorem closeAllPanels_tolerant:
  "snd (closeAllPanels env tr) =
     tr @ [PublishPanelClosePanel, NavSidebarCloseSidebar, ToolbarCloseSettings]
   \<and> (\<forall>t e. fst (closeAllPanels env tr) \<noteq> Rejected t e)
   \<and> (settledAt (publishPanel_closePanel env tr) \<noteq> None
      \<and> settledAt (navSidebar_closeSidebar env (tr @ [PublishPanelClosePanel])) \<noteq> None
      \<and> settledAt (toolbar_closeSettings env (tr @ [PublishPanelClosePanel, NavSidebarCloseSidebar])) \<noteq> None
      \<longrightarrow> (\<exists>t. fst (closeAllPanels env tr) = Fulfilled t ()))"
  by (cases "publishPanel_closePanel env tr";
      cases "navSidebar_closeSidebar env (tr @ [PublishPanelClosePanel])";
      cases "toolbar_closeSettings env (tr @ [PublishPanelClosePanel, NavSidebarCloseSidebar])")
     (simp_all add: closeAllPanels_def async_defs Promise_allSettled_def)

theorem closeAllPanels_tolerant_witness:
  "publishPanel_closePanel stuck_panel_session [] = Rejected 1 (TimeoutError (lit ''locator.click''))
   \<and> closeAllPanels stuck_panel_session [] =
       (Fulfilled 1 (), [PublishPanelClosePanel, NavSidebarCloseSidebar, ToolbarCloseSettings])"
  using closeAllPanels_tolerant [where env = stuck_panel_session and tr = "[]"]
  by (simp add: session_defs closeAllPanels_def async_defs Promise_allSettled_def)


section \<open>Reverting to draft\<close>

text \<open>
  C10. When the switch to draft succeeds, the editor frame is found and the click on the
  button \<^verbatim>\<open>OK\<close> of the confirmation dialog succeeds, \<open>unpublish\<close> has made these calls
  in this order and then waits for the notice \<^verbatim>\<open>Post reverted to draft.\<close>: it completes
  normally only when that wait is fulfilled, fails with the error of the wait when the
  notice does not appear within the bounded wait, and does not return while the wait
  does not settle.
\<close>

theorem unpublish_requires_notice:
  assumes "toolbar_switchToDraft env tr = Fulfilled t1 ()"
    and "getEditorFrame env this (tr @ [ToolbarSwitchToDraft]) = (Fulfilled t2 (Some frame), tr2)"
    and "frame_click env frame (lit ''div[role=\"dialog\"] button:has-text(\"OK\")'') tr2 = Fulfilled t3 ()"
  shows "unpublish env this tr =
           (case frame_waitForSelector env frame
                   (lit ''.components-editor-notices__snackbar :has-text(\"Post reverted to draft.\")'')
                   (tr2 @ [FrameClick frame (lit ''div[role=\"dialog\"] button:has-text(\"OK\")'')]) of
              Fulfilled t4 notice \<Rightarrow> Fulfilled (t1 + (t2 + (t3 + t4))) ()
            | Rejected t4 e \<Rightarrow> Rejected (t1 + (t2 + (t3 + t4))) e
            | Pending \<Rightarrow> Pending,
            tr2 @ [FrameClick frame (lit ''div[role=\"dialog\"] button:has-text(\"OK\")''),
                   FrameWaitForSelector frame
                     (lit ''.components-editor-notices__snackbar :has-text(\"Post reverted to draft.\")'')])
         \<and> (\<exists>evs. tr2 = tr @ [ToolbarSwitchToDraft] @ evs)"
proof -
  have "\<exists>evs. tr2 = (tr @ [ToolbarSwitchToDraft]) @ evs"
    using getEditorFrame_extends [of env this "tr @ [ToolbarSwitchToDraft]"] assms(2) by simp
  then have order: "\<exists>evs. tr2 = tr @ [ToolbarSwitchToDraft] @ evs" by simp
  have "unpublish env this tr =
           (case frame_waitForSelector env frame
                   (lit ''.components-editor-notices__snackbar :has-text(\"Post reverted to draft.\")'')
                   (tr2 @ [FrameClick frame (lit ''div[role=\"dialog\"] button:has-text(\"OK\")'')]) of
              Fulfilled t4 notice \<Rightarrow> Fulfilled (t1 + (t2 + (t3 + t4))) ()
            | Rejected t4 e \<Rightarrow> Rejected (t1 + (t2 + (t3 + t4))) e
            | Pending \<Rightarrow> Pending,
            tr2 @ [FrameClick frame (lit ''div[role=\"dialog\"] button:has-text(\"OK\")''),
                   FrameWaitForSelector frame
                     (lit ''.components-editor-notices__snackbar :has-text(\"Post reverted to draft.\")'')])"
    using assms
    by (simp add: unpublish_def return_def call_def await_def split: promise.splits)
  with order show ?thesis by simp
qed

theorem unpublish_requires_notice_witness:
  "getEditorFrame session \<lparr>requiresGutenframe = False\<rparr> [ToolbarSwitchToDraft] =
     (Fulfilled 2 (Some (ChildFrame 0)),
      [ToolbarSwitchToDraft, PageLocatorElementHandle editorFrame 105000,
       ElementHandleContentFrame (ElementHandle 0)])
   \<and> unpublish session \<lparr>requiresGutenframe = False\<rparr> [] =
       (Fulfilled 5 (),
        [ToolbarSwitchToDraft, PageLocatorElementHandle editorFrame 105000,
         ElementHandleContentFrame (ElementHandle 0),
         FrameClick (ChildFrame 0) (lit ''div[role=\"dialog\"] button:has-text(\"OK\")''), FrameWaitForSelector (ChildFrame 0) (lit ''.components-editor-notices__snackbar :has-text(\"Post reverted to draft.\")'')])
   \<and> fst (unpublish no_notice_session \<lparr>requiresGutenframe = False\<rparr> []) =
       Rejected 30004 (TimeoutError (lit ''frame.waitForSelector''))"
proof -
  have frame: "getEditorFrame session \<lparr>requiresGutenframe = False\<rparr> [ToolbarSwitchToDraft] =
     (Fulfilled 2 (Some (ChildFrame 0)),
      [ToolbarSwitchToDraft, PageLocatorElementHandle editorFrame 105000,
       ElementHandleContentFrame (ElementHandle 0)])"
    by (simp add: getEditorFrame_def async_defs session_defs lit_def)
  have frame': "getEditorFrame no_notice_session \<lparr>requiresGutenframe = False\<rparr> [ToolbarSwitchToDraft] =
     (Fulfilled 2 (Some (ChildFrame 0)),
      [ToolbarSwitchToDraft, PageLocatorElementHandle editorFrame 105000,
       ElementHandleContentFrame (ElementHandle 0)])"
    by (simp add: getEditorFrame_def async_defs session_defs lit_def)
  show ?thesis
    using frame
      unpublish_requires_notice [where env = session and tr = "[]"
        and this = "\<lparr>requiresGutenframe = False\<rparr>" and frame = "ChildFrame 0"
        and ?t1.0 = 1 and ?t2.0 = 2 and ?t3.0 = 1
        and ?tr2.0 = "[ToolbarSwitchToDraft, PageLocatorElementHandle editorFrame 105000,
                       ElementHandleContentFrame (ElementHandle 0)]"]
      unpublish_requires_notice [where env = no_notice_session and tr = "[]"
        and this = "\<lparr>requiresGutenframe = False\<rparr>" and frame = "ChildFrame 0"
        and ?t1.0 = 1 and ?t2.0 = 2 and ?t3.0 = 1
        and ?tr2.0 = "[ToolbarSwitchToDraft, PageLocatorElementHandle editorFrame 105000,
                       ElementHandleContentFrame (ElementHandle 0)]"]
      frame'
    by (simp add: session_defs)
qed


section \<open>Leaving the editor\<close>





section \<open>Publishing\<close>

text \<open>
  What the toast source yields, once the editor frame is found: the link's
  \<^verbatim>\<open>href\<close>, or the string \<^verbatim>\<open>null\<close> for a missing one, goes through the \<^verbatim>\<open>URL\<close>
  constructor, and the source fails where the constructor throws.
\<close>

lemma getPublishedURLFromToast_outcome:
  assumes "getEditorFrame env this tr = (Fulfilled t0 (Some frame), tr0)"
  shows "fst (getPublishedURLFromToast env this tr) =
           (case frame_locator_getAttribute env frame toastViewPostLink (lit ''href'') tr0 of
              Fulfilled t1 publishedURL \<Rightarrow>
                (case new_URL env (case publishedURL of None \<Rightarrow> lit ''null'' | Some u \<Rightarrow> u) of
                   None \<Rightarrow> Rejected (t0 + t1) TypeError
                 | Some url \<Rightarrow> Fulfilled (t0 + t1) url)
            | Rejected t1 e \<Rightarrow> Rejected (t0 + t1) e
            | Pending \<Rightarrow> Pending)"
  using assms
  by (simp add: getPublishedURLFromToast_def return_def throw_def call_def await_def
        split: promise.splits option.splits)

text \<open>
  When the click on publish, the check of the panel and (with the panel open) the second
  publishing step succeed, \<open>publish\<close> without a visit settles as the first of the two
  sources to settle, the readout of the panel or the link of the toast (the panel on a
  tie), whether that source has fulfilled or was rejected.
\<close>

lemma publish_outcome:
  assumes "toolbar_clickPublish env tr = Fulfilled t1 ()"
    and "publishPanel_panelIsOpen env (tr @ [ToolbarClickPublish]) = Fulfilled t2 isOpen"
    and "isOpen \<longrightarrow> publishPanel_publish env (tr @ [ToolbarClickPublish, PublishPanelIsOpen]) = Fulfilled t3 ()"
    and "ready = tr @ [ToolbarClickPublish, PublishPanelIsOpen] @ (if isOpen then [PublishPanelPublish] else [])"
  shows "fst (publish env this False tr) =
           delay (t1 + (t2 + (if isOpen then t3 else 0)))
             (Promise_race [publishPanel_getPublishedURL env ready,
                            fst (getPublishedURLFromToast env this (ready @ [PublishPanelGetPublishedURL]))])"
proof -
  obtain toast tr' where
    toast: "getPublishedURLFromToast env this (ready @ [PublishPanelGetPublishedURL]) = (toast, tr')"
    by (cases "getPublishedURLFromToast env this (ready @ [PublishPanelGetPublishedURL])")
  show ?thesis
    using assms toast
    by (cases isOpen; cases "Promise_race [publishPanel_getPublishedURL env ready, toast]")
       (simp_all add: publish_def return_def call_def await_def race_def)
qed

text \<open>
  C3. The claim, with the comment in \<^verbatim>\<open>publish\<close> that racing the two sources guarantees
  that one or the other works: \<open>publish\<close> returns a well-formed URL whichever source
  delivers it, and fails only when neither source is available. The code does not do
  this; \<^verbatim>\<open>Promise.race\<close> takes the first source to settle, also when that one has
  failed. Two runs, without a visit:

  \<^item> The editor is not in the iframe and strict mode is off, so that \<^verbatim>\<open>getEditorFrame\<close>
    falls back to the top-level frame when its wait of 105000 instants ends; the
    publish panel is not there and its readout times out after 30000 instants. The toast
    source yields the URL at instant 105001, but \<open>publish\<close> has failed at instant 30002
    with the timeout of the panel.

  \<^item> The panel readout yields a URL after five instants; the link of the toast is found
    earlier and carries the relative reference \<^verbatim>\<open>/?p=42\<close>, which the \<^verbatim>\<open>URL\<close>
    constructor refuses. \<open>publish\<close> fails with that \<^verbatim>\<open>TypeError\<close> at instant 6.
\<close>

theorem publish_fails_with_source_available:
  "fst (getPublishedURLFromToast late_frame_session \<lparr>requiresGutenframe = False\<rparr>
          [ToolbarClickPublish, PublishPanelIsOpen, PublishPanelGetPublishedURL])
     = Fulfilled 105001 (URL (lit ''https://example.wordpress.com/hello/''))
   \<and> fst (publish late_frame_session \<lparr>requiresGutenframe = False\<rparr> False [])
     = Rejected 30002 (TimeoutError (lit ''locator.getAttribute''))
   \<and> publishPanel_getPublishedURL relative_toast_session
        [ToolbarClickPublish, PublishPanelIsOpen, PublishPanelPublish]
     = Fulfilled 5 (URL (lit ''https://example.wordpress.com/hello/''))
   \<and> fst (publish relative_toast_session \<lparr>requiresGutenframe = False\<rparr> False [])
     = Rejected 6 TypeError"
  by (simp add: session_defs lit_def publish_def getPublishedURLFromToast_def getEditorFrame_def
        async_defs Promise_race_def sooner_def)


section \<open>Settings workflows\<close>

text \<open>
  C8, as the code has it. Each of \<open>schedule\<close>, \<open>setArticleVisibility\<close>, \<open>selectCategory\<close>,
  \<open>addTag\<close> and \<open>setURLSlug\<close> begins with the same tab resolution: it starts the click on
  the tab \<^verbatim>\<open>Page\<close> and the click on the tab \<^verbatim>\<open>Post\<close> and waits for the one that
  settles first. When that click succeeded, the workflow goes on to expand its settings
  section and to apply its value, step by step; when that click failed, the workflow
  fails with its error and starts nothing else, whether or not the other click succeeds
  later.
\<close>

theorem settings_workflows_tab_race:
  assumes "tabs = tr @ [SettingsClickTab (lit ''Page''), SettingsClickTab (lit ''Post'')]"
    and "first = Promise_race [settings_clickTab env (lit ''Page'') tr,
                               settings_clickTab env (lit ''Post'') (tr @ [SettingsClickTab (lit ''Page'')])]"
  shows "schedule env date tr =
           await (settle first) (\<lambda>_. steps
             [(SettingsExpandSection (lit ''Status & Visibility''),
               settings_expandSection env (lit ''Status & Visibility'')),
              (SettingsOpenSchedule, settings_openSchedule env),
              (SettingsSetScheduleDetails date, settings_setScheduleDetails env date),
              (SettingsCloseSchedule, settings_closeSchedule env)]) tabs
       \<and> setArticleVisibility env visibility password tr =
           await (settle first) (\<lambda>_. steps
             [(SettingsExpandSection (lit ''Status & Visibility''),
               settings_expandSection env (lit ''Status & Visibility'')),
              (SettingsOpenVisibilityOptions, settings_openVisibilityOptions env),
              (SettingsSelectVisibility visibility password,
               settings_selectVisibility env visibility password),
              (SettingsCloseVisibilityOptions, settings_closeVisibilityOptions env)]) tabs
       \<and> selectCategory env name tr =
           await (settle first) (\<lambda>_. steps
             [(SettingsExpandSection (lit ''Categories''), settings_expandSection env (lit ''Categories'')),
              (SettingsCheckCategory name, settings_checkCategory env name)]) tabs
       \<and> addTag env tag tr =
           await (settle first) (\<lambda>_. steps
             [(SettingsExpandSection (lit ''Tags''), settings_expandSection env (lit ''Tags'')),
              (SettingsEnterTag tag, settings_enterTag env tag)]) tabs
       \<and> setURLSlug env slug tr =
           await (settle first) (\<lambda>_. steps
             [(SettingsExpandSection (lit ''Permalink''), settings_expandSection env (lit ''Permalink'')),
              (SettingsEnterUrlSlug slug, settings_enterUrlSlug env slug)]) tabs
       \<and> (\<forall>t u k. first = Fulfilled t u \<longrightarrow>
             await (settle first) (k :: unit \<Rightarrow> ('s, unit) async) tabs =
               (delay t (fst (k u tabs)), snd (k u tabs)))
       \<and> (\<forall>t e k. first = Rejected t e \<longrightarrow>
             await (settle first) (k :: unit \<Rightarrow> ('s, unit) async) tabs = (Rejected t e, tabs))
       \<and> (\<forall>k. first = Pending \<longrightarrow>
             await (settle first) (k :: unit \<Rightarrow> ('s, unit) async) tabs = (Pending, tabs))
       \<and> (\<exists>evs. snd (schedule env date tr) = tabs @ evs)
       \<and> (\<exists>evs. snd (setArticleVisibility env visibility password tr) = tabs @ evs)
       \<and> (\<exists>evs. snd (selectCategory env name tr) = tabs @ evs)
       \<and> (\<exists>evs. snd (addTag env tag tr) = tabs @ evs)
       \<and> (\<exists>evs. snd (setURLSlug env slug tr) = tabs @ evs)"
proof -
  have tab: "race [call (SettingsClickTab (lit ''Page'')) (settings_clickTab env (lit ''Page'')),
                   call (SettingsClickTab (lit ''Post'')) (settings_clickTab env (lit ''Post''))] tr
             = settle first tabs"
    using assms by (simp add: race_of_two_calls)
  have 1: "schedule env date tr =
           await (settle first) (\<lambda>_. steps
             [(SettingsExpandSection (lit ''Status & Visibility''),
               settings_expandSection env (lit ''Status & Visibility'')),
              (SettingsOpenSchedule, settings_openSchedule env),
              (SettingsSetScheduleDetails date, settings_setScheduleDetails env date),
              (SettingsCloseSchedule, settings_closeSchedule env)]) tabs"
    by (simp add: schedule_def await_def tab call_def return_def split: promise.splits prod.splits)
  have 2: "setArticleVisibility env visibility password tr =
           await (settle first) (\<lambda>_. steps
             [(SettingsExpandSection (lit ''Status & Visibility''),
               settings_expandSection env (lit ''Status & Visibility'')),
              (SettingsOpenVisibilityOptions, settings_openVisibilityOptions env),
              (SettingsSelectVisibility visibility password,
               settings_selectVisibility env visibility password),
              (SettingsCloseVisibilityOptions, settings_closeVisibilityOptions env)]) tabs"
    by (simp add: setArticleVisibility_def await_def tab call_def return_def split: promise.splits prod.splits)
  have 3: "selectCategory env name tr =
           await (settle first) (\<lambda>_. steps
             [(SettingsExpandSection (lit ''Categories''), settings_expandSection env (lit ''Categories'')),
              (SettingsCheckCategory name, settings_checkCategory env name)]) tabs"
    by (simp add: selectCategory_def await_def tab call_def return_def split: promise.splits prod.splits)
  have 4: "addTag env tag tr =
           await (settle first) (\<lambda>_. steps
             [(SettingsExpandSection (lit ''Tags''), settings_expandSection env (lit ''Tags'')),
              (SettingsEnterTag tag, settings_enterTag env tag)]) tabs"
    by (simp add: addTag_def await_def tab call_def return_def split: promise.splits prod.splits)
  have 5: "setURLSlug env slug tr =
           await (settle first) (\<lambda>_. steps
             [(SettingsExpandSection (lit ''Permalink''), settings_expandSection env (lit ''Permalink'')),
              (SettingsEnterUrlSlug slug, settings_enterUrlSlug env slug)]) tabs"
    by (simp add: setURLSlug_def await_def tab call_def return_def split: promise.splits prod.splits)
  have 6: "\<forall>t u k. first = Fulfilled t u \<longrightarrow>
             await (settle first) (k :: unit \<Rightarrow> ('s, unit) async) tabs =
               (delay t (fst (k u tabs)), snd (k u tabs))"
    by (simp add: await_def settle_def split: prod.splits)
  have 7: "\<forall>t e k. first = Rejected t e \<longrightarrow>
             await (settle first) (k :: unit \<Rightarrow> ('s, unit) async) tabs = (Rejected t e, tabs)"
    by (simp add: await_def settle_def)
  have 8: "\<forall>k. first = Pending \<longrightarrow>
             await (settle first) (k :: unit \<Rightarrow> ('s, unit) async) tabs = (Pending, tabs)"
    by (simp add: await_def settle_def)
  have 9: "\<exists>evs. snd (schedule env date tr) = tabs @ evs"
    unfolding 1 by (rule after_settled_extends)
  have 10: "\<exists>evs. snd (setArticleVisibility env visibility password tr) = tabs @ evs"
    unfolding 2 by (rule after_settled_extends)
  have 11: "\<exists>evs. snd (selectCategory env name tr) = tabs @ evs"
    unfolding 3 by (rule after_settled_extends)
  have 12: "\<exists>evs. snd (addTag env tag tr) = tabs @ evs"
    unfolding 4 by (rule after_settled_extends)
  have 13: "\<exists>evs. snd (setURLSlug env slug tr) = tabs @ evs"
    unfolding 5 by (rule after_settled_extends)
  from 1 2 3 4 5 6 7 8 9 10 11 12 13 show ?thesis by (intro conjI)
qed

theorem settings_workflows_tab_race_witness:
  "Promise_race [settings_clickTab session (lit ''Page'') [],
                 settings_clickTab session (lit ''Post'') [SettingsClickTab (lit ''Page'')]]
     = Fulfilled 1 ()
   \<and> schedule session (lit ''2031-01-01T10:00'') [] =
       (Fulfilled 5 (),
        [SettingsClickTab (lit ''Page''), SettingsClickTab (lit ''Post''),
         SettingsExpandSection (lit ''Status & Visibility''), SettingsOpenSchedule,
         SettingsSetScheduleDetails (lit ''2031-01-01T10:00''), SettingsCloseSchedule])
   \<and> selectCategory session (lit ''News'') [] =
       (Fulfilled 3 (),
        [SettingsClickTab (lit ''Page''), SettingsClickTab (lit ''Post''),
         SettingsExpandSection (lit ''Categories''), SettingsCheckCategory (lit ''News'')])"
  using settings_workflows_tab_race [where env = session and tr = "[]"
      and tabs = "[SettingsClickTab (lit ''Page''), SettingsClickTab (lit ''Post'')]"
      and first = "Fulfilled 1 ()" and date = "lit ''2031-01-01T10:00''" and name = "lit ''News''"]
  by (simp add: session_defs lit_def Promise_race_def sooner_def async_defs)

text \<open>
  C8, as stated, fails. The click on the tab \<^verbatim>\<open>Post\<close> succeeds after two instants and
  is the first click to succeed, but the click on the tab \<^verbatim>\<open>Page\<close> has failed one
  instant earlier: \<open>selectCategory\<close> does not accept the click that succeeded; it fails
  and never expands the section \<^verbatim>\<open>Categories\<close>.
\<close>

theorem settings_workflows_counterexample:
  "settings_clickTab failing_page_tab_session (lit ''Post'') [SettingsClickTab (lit ''Page'')]
     = Fulfilled 2 ()
   \<and> selectCategory failing_page_tab_session (lit ''News'') [] =
       (Rejected 1 (TimeoutError (lit ''locator.click'')),
        [SettingsClickTab (lit ''Page''), SettingsClickTab (lit ''Post'')])"
  by (simp add: session_defs lit_def selectCategory_def async_defs Promise_race_def sooner_def)

end
